theory Spec2Isabelle
  imports Main "HOL-Library.Word"
begin

section \<open>The device sketch: \<open>serial_sketch.ino\<close>\<close>

text \<open>
  The sketch keeps its commands in module-level variables and drives three kinds of
  external objects: the GPIO pin of the LED, two \<open>Servo\<close> objects and two
  \<open>Adafruit_DCMotor\<close> objects. The external objects are modelled by the calls the
  sketch makes on them, in order; the serial line by the messages the sketch hands to
  \<open>sendInitMessage\<close>, \<open>sendUpdateMessage\<close> and \<open>sendSerialMessage\<close>.

  An Arduino \<open>int\<close> has 16 bits. The handlers only compare and negate values that
  were clamped before, so no operation on an \<open>int\<close> of the sketch can overflow, and
  the values are modelled by \<open>int\<close>: what holds for every \<open>int\<close> holds for every
  16-bit value. \<open>millis()\<close> and \<open>previousLedStateChange\<close> are 32-bit and are
  subtracted, so they are \<open>32 word\<close>.
\<close>

datatype level = LOW | HIGH

datatype pin_mode = INPUT | OUTPUT

datatype gpio_call = PinMode int pin_mode | DigitalWrite int level

datatype servo_call = Attach int | Write int

datatype motor_mode = FORWARD | BACKWARD | RELEASE

datatype motor_call = SetSpeed int | Run motor_mode

datatype message =
    InitMessage string int
  | UpdateMessage string int
  | SerialMessage string

record device =
  blinkIntervalInit :: int
  blinkInterval :: int
  ledState :: level
  previousLedStateChange :: "32 word"
  servo01 :: "servo_call list"
  servo02 :: "servo_call list"
  servo01Init :: int
  servo02Init :: int
  motor01Init :: int
  motor02Init :: int
  afmsBegun :: bool
  motor01 :: "motor_call list"
  motor02 :: "motor_call list"
  gpio :: "gpio_call list"
  serialBaud :: "int option"
  serialOut :: "message list"

text \<open>The state the global initialisers of the sketch give, before \<open>setup()\<close> runs.\<close>

definition initialDevice :: device where
  "initialDevice =
     \<lparr> blinkIntervalInit = 250, blinkInterval = 250, ledState = LOW,
       previousLedStateChange = 0, servo01 = [], servo02 = [],
       servo01Init = 90, servo02Init = 90, motor01Init = 0, motor02Init = 0,
       afmsBegun = False, motor01 = [], motor02 = [], gpio = [],
       serialBaud = None, serialOut = [] \<rparr>"

subsection \<open>The macros of the Arduino core\<close>

text \<open>
  \<^verbatim>\<open>#define constrain(amt,low,high) ((amt)<(low)?(low):((amt)>(high)?(high):(amt)))\<close>
  and \<^verbatim>\<open>#define abs(x) ((x)>0?(x):-(x))\<close>.
\<close>

definition constrain :: "int \<Rightarrow> int \<Rightarrow> int \<Rightarrow> int" where
  "constrain amt low high = (if amt < low then low else if amt > high then high else amt)"

definition abs_macro :: "int \<Rightarrow> int" where
  "abs_macro x = (if x > 0 then x else - x)"

subsection \<open>Messages to the host\<close>

text \<open>
  Modelled from the spec: \<open>sendInitMessage\<close> is in \<open>serial_handler.h\<close>, which is
  not among the sources. It sends the host an init message for a command; the sketch
  hands it the name and the value, and the model records them in the order of the calls.
\<close>

definition sendInitMessage :: "string \<Rightarrow> int \<Rightarrow> device \<Rightarrow> device" where
  "sendInitMessage name v d = d\<lparr>serialOut := serialOut d @ [InitMessage name v]\<rparr>"

text \<open>
  Modelled from the spec: \<open>sendUpdateMessage\<close> is in \<open>serial_handler.h\<close>. It sends
  the host an update message for a command, in the frame format of the init message.
\<close>

definition sendUpdateMessage :: "string \<Rightarrow> int \<Rightarrow> device \<Rightarrow> device" where
  "sendUpdateMessage name v d = d\<lparr>serialOut := serialOut d @ [UpdateMessage name v]\<rparr>"

text \<open>
  Modelled from the spec: \<open>sendSerialMessage\<close> is in \<open>serial_handler.h\<close>. It sends
  the host a line of text.
\<close>

definition sendSerialMessage :: "string \<Rightarrow> device \<Rightarrow> device" where
  "sendSerialMessage txt d = d\<lparr>serialOut := serialOut d @ [SerialMessage txt]\<rparr>"

subsection \<open>Blink\<close>

definition BLINK :: string where
  "BLINK = ''BLINK''"

definition led :: int where
  "led = 13"

definition updateBlinkIntervalInit :: "int \<Rightarrow> device \<Rightarrow> device" where
  "updateBlinkIntervalInit newBlinkIntervalInit d =
     sendInitMessage BLINK newBlinkIntervalInit
       (d\<lparr>blinkIntervalInit := newBlinkIntervalInit\<rparr>)"

definition setBlinkInterval :: "int \<Rightarrow> device \<Rightarrow> device" where
  "setBlinkInterval newBlinkInterval d =
     (if newBlinkInterval \<le> 0 then d\<lparr>blinkInterval := blinkIntervalInit d\<rparr>
      else
        (let d' = d\<lparr>blinkInterval := constrain newBlinkInterval 10 10000\<rparr>
         in sendUpdateMessage BLINK (blinkInterval d') d'))"

definition switchLedState :: "device \<Rightarrow> device" where
  "switchLedState d =
     (if ledState d = LOW then d\<lparr>ledState := HIGH\<rparr> else d\<lparr>ledState := LOW\<rparr>)"

definition digitalWrite :: "int \<Rightarrow> level \<Rightarrow> device \<Rightarrow> device" where
  "digitalWrite pin v d = d\<lparr>gpio := gpio d @ [DigitalWrite pin v]\<rparr>"

definition pinMode :: "int \<Rightarrow> pin_mode \<Rightarrow> device \<Rightarrow> device" where
  "pinMode pin m d = d\<lparr>gpio := gpio d @ [PinMode pin m]\<rparr>"

text \<open>
  \<open>checkForBlink\<close> subtracts a \<open>long\<close> from an \<open>unsigned long\<close> and compares with
  an \<open>int\<close>: both operands are converted to \<open>unsigned long\<close>, the subtraction wraps
  and the comparison is unsigned. \<open>currentMillis\<close> is the value \<open>millis()\<close> returns.
\<close>

definition checkForBlink :: "32 word \<Rightarrow> device \<Rightarrow> device" where
  "checkForBlink currentMillis d =
     (if currentMillis - previousLedStateChange d > word_of_int (blinkInterval d) then
        (let d1 = d\<lparr>previousLedStateChange := currentMillis\<rparr>;
             d2 = switchLedState d1
         in digitalWrite led (ledState d2) d2)
      else d)"

definition setupBlink :: "device \<Rightarrow> device" where
  "setupBlink d = pinMode led OUTPUT d"

subsection \<open>Servos\<close>

definition SERVO_01 :: string where
  "SERVO_01 = ''SRV1''"

definition SERVO_02 :: string where
  "SERVO_02 = ''SRV2''"

definition updateServo01Init :: "int \<Rightarrow> device \<Rightarrow> device" where
  "updateServo01Init newInitValue d =
     sendInitMessage SERVO_01 newInitValue (d\<lparr>servo01Init := newInitValue\<rparr>)"

definition updateServo02Init :: "int \<Rightarrow> device \<Rightarrow> device" where
  "updateServo02Init newInitValue d =
     sendInitMessage SERVO_02 newInitValue (d\<lparr>servo02Init := newInitValue\<rparr>)"

definition setServo01 :: "int \<Rightarrow> device \<Rightarrow> device" where
  "setServo01 servoValue d =
     sendUpdateMessage SERVO_01 servoValue
       (d\<lparr>servo01 := servo01 d @ [Write (constrain servoValue 0 180)]\<rparr>)"

definition setServo02 :: "int \<Rightarrow> device \<Rightarrow> device" where
  "setServo02 servoValue d =
     sendUpdateMessage SERVO_02 servoValue
       (d\<lparr>servo02 := servo02 d @ [Write (constrain servoValue 0 180)]\<rparr>)"

definition setupServos :: "device \<Rightarrow> device" where
  "setupServos d =
     (let d1 = d\<lparr>servo01 := servo01 d @ [Attach 9]\<rparr>;
          d2 = d1\<lparr>servo01 := servo01 d1 @ [Write (servo01Init d1)]\<rparr>;
          d3 = d2\<lparr>servo02 := servo02 d2 @ [Attach 10]\<rparr>
      in d3\<lparr>servo02 := servo02 d3 @ [Write (servo02Init d3)]\<rparr>)"

subsection \<open>Motors\<close>

definition MOTOR_01 :: string where
  "MOTOR_01 = ''MTR1''"

definition MOTOR_02 :: string where
  "MOTOR_02 = ''MTR2''"

definition updateMotor01Init :: "int \<Rightarrow> device \<Rightarrow> device" where
  "updateMotor01Init newInitValue d =
     sendInitMessage MOTOR_01 newInitValue (d\<lparr>motor01Init := newInitValue\<rparr>)"

definition updateMotor02Init :: "int \<Rightarrow> device \<Rightarrow> device" where
  "updateMotor02Init newInitValue d =
     sendInitMessage MOTOR_02 newInitValue (d\<lparr>motor02Init := newInitValue\<rparr>)"

text \<open>
  \<open>setMotorSpeed\<close> works on the motor object it is given a pointer to: the model takes
  the calls made on that motor so far and returns them with the new calls appended.
\<close>

definition setMotorSpeed :: "motor_call list \<Rightarrow> int \<Rightarrow> motor_call list" where
  "setMotorSpeed motor speed0 =
     (let speed = constrain speed0 (- 255) 255
      in if speed = 0 then motor @ [Run RELEASE]
         else if speed > 0 then motor @ [SetSpeed speed, Run FORWARD]
         else motor @ [SetSpeed (abs_macro speed), Run BACKWARD])"

definition setMotor01 :: "int \<Rightarrow> device \<Rightarrow> device" where
  "setMotor01 motorValue d =
     sendUpdateMessage MOTOR_01 motorValue
       (d\<lparr>motor01 := setMotorSpeed (motor01 d) motorValue\<rparr>)"

definition setMotor02 :: "int \<Rightarrow> device \<Rightarrow> device" where
  "setMotor02 motorValue d =
     sendUpdateMessage MOTOR_02 motorValue
       (d\<lparr>motor02 := setMotorSpeed (motor02 d) motorValue\<rparr>)"

definition setupMotors :: "device \<Rightarrow> device" where
  "setupMotors d = d\<lparr>afmsBegun := True\<rparr>"

subsection \<open>Reinitialising the commands\<close>

definition initializeCommands :: "device \<Rightarrow> device" where
  "initializeCommands d =
     (let d1 = d\<lparr>blinkInterval := blinkIntervalInit d\<rparr>;
          d2 = setServo01 (servo01Init d1) d1;
          d3 = setServo02 (servo02Init d2) d2;
          d4 = setMotor01 (motor01Init d3) d3
      in setMotor02 (motor02Init d4) d4)"

subsection \<open>The handler registries\<close>

type_synonym handler = "int \<Rightarrow> device \<Rightarrow> device"

type_synonym registry = "(string \<times> handler) list"

text \<open>
  Modelled from the spec: \<open>registerInitHandler\<close> is in \<open>command_handlers.h\<close>, which
  is not among the sources. The spec has a name-keyed table with unique names, built
  once at startup, in which registering a name a second time is rejected. The model
  keeps the table in registration order and leaves it as it is when the name is already
  there.
\<close>

definition registerInitHandler :: "string \<Rightarrow> handler \<Rightarrow> registry \<Rightarrow> registry" where
  "registerInitHandler name h reg =
     (if name \<in> set (map fst reg) then reg else reg @ [(name, h)])"

text \<open>
  Modelled from the spec: \<open>registerCommandHandler\<close> is in \<open>command_handlers.h\<close>
  too; it does for the update handlers what \<open>registerInitHandler\<close> does for the init
  handlers.
\<close>

definition registerCommandHandler :: "string \<Rightarrow> handler \<Rightarrow> registry \<Rightarrow> registry" where
  "registerCommandHandler name h reg =
     (if name \<in> set (map fst reg) then reg else reg @ [(name, h)])"

definition registerInitHandlers :: "registry \<Rightarrow> registry" where
  "registerInitHandlers reg =
     (let r1 = registerInitHandler BLINK updateBlinkIntervalInit reg;
          r2 = registerInitHandler SERVO_01 updateServo01Init r1;
          r3 = registerInitHandler SERVO_02 updateServo02Init r2;
          r4 = registerInitHandler MOTOR_01 updateMotor01Init r3
      in registerInitHandler MOTOR_02 updateMotor02Init r4)"

definition registerCommandHandlers :: "registry \<Rightarrow> registry" where
  "registerCommandHandlers reg =
     (let r1 = registerCommandHandler BLINK setBlinkInterval reg;
          r2 = registerCommandHandler SERVO_01 setServo01 r1;
          r3 = registerCommandHandler SERVO_02 setServo02 r2;
          r4 = registerCommandHandler MOTOR_01 setMotor01 r3
      in registerCommandHandler MOTOR_02 setMotor02 r4)"

subsection \<open>The watchdog and the device loop\<close>

text \<open>
  Modelled from the spec: the state of the watchdog is in \<open>update_handler.h\<close>, which
  is not among the sources. The spec's watchdog has a time of the last update, a
  strictly positive timeout threshold and the two states ARMED and EXPIRED (\<open>expired\<close>
  below), and it runs a reinitialize action. Time is the number of milliseconds since
  the start, as \<open>nat\<close>.
\<close>

record update_handler =
  lastUpdateTimestamp :: nat
  timeoutThreshold :: nat
  expired :: bool
  reinitialize :: "device \<Rightarrow> device"

record system =
  dev :: device
  initHandlers :: registry
  commandHandlers :: registry
  watchdog :: update_handler

text \<open>
  Modelled from the spec: \<open>setupUpdateHandler\<close> is in \<open>update_handler.h\<close>. The
  sketch gives it the reinitialize action; the threshold is a constant of the missing
  file and is a parameter here. The watchdog starts armed, with the start as the time of
  the last update.
\<close>

definition setupUpdateHandler :: "nat \<Rightarrow> (device \<Rightarrow> device) \<Rightarrow> update_handler" where
  "setupUpdateHandler threshold f =
     \<lparr> lastUpdateTimestamp = 0, timeoutThreshold = threshold, expired = False,
       reinitialize = f \<rparr>"

text \<open>
  Modelled from the spec: the dispatch of a decoded frame is in the missing headers.
  \<open>dispatch(name, value)\<close> looks the name up; without an update handler the frame is
  ignored; otherwise the handler runs with the value and the watchdog is reset: the
  time of the last update is now, and the state is ARMED.
\<close>

definition dispatch :: "nat \<Rightarrow> string \<Rightarrow> int \<Rightarrow> system \<Rightarrow> system" where
  "dispatch now name v sys =
     (case map_of (commandHandlers sys) name of
        None \<Rightarrow> sys
      | Some h \<Rightarrow>
          sys\<lparr> dev := h v (dev sys),
               watchdog := (watchdog sys)\<lparr>lastUpdateTimestamp := now, expired := False\<rparr> \<rparr>)"

type_synonym frame = "string \<times> int"

text \<open>
  Modelled from the spec: \<open>processSerialData\<close> is in \<open>serial_handler.h\<close>. It drains
  the bytes that have arrived through the frame codec and dispatches every decoded
  frame. The decoded frames of one iteration are an input of the model.
\<close>

fun processSerialData :: "nat \<Rightarrow> frame list \<Rightarrow> system \<Rightarrow> system" where
  "processSerialData now [] sys = sys"
| "processSerialData now ((name, v) # frames) sys =
     processSerialData now frames (dispatch now name v sys)"

text \<open>
  Modelled from the spec: the condition of the transition from ARMED to EXPIRED,
  \<open>now - lastUpdateTimestamp > timeoutThreshold\<close> in the state ARMED.
\<close>

definition expirationDue :: "nat \<Rightarrow> update_handler \<Rightarrow> bool" where
  "expirationDue now w =
     (\<not> expired w \<and> now - lastUpdateTimestamp w > timeoutThreshold w)"

text \<open>
  Modelled from the spec: \<open>checkForUpdateExpiration\<close> is in \<open>update_handler.h\<close>. Once
  per loop iteration it checks the condition; on the transition it runs the
  reinitialize action once and the state is EXPIRED, until a frame is dispatched.
\<close>

definition checkForUpdateExpiration :: "nat \<Rightarrow> system \<Rightarrow> system" where
  "checkForUpdateExpiration now sys =
     (if expirationDue now (watchdog sys)
      then sys\<lparr> dev := reinitialize (watchdog sys) (dev sys),
                watchdog := (watchdog sys)\<lparr>expired := True\<rparr> \<rparr>
      else sys)"

text \<open>
  \<open>setup()\<close>. The text of \<open>String(freeRam())\<close> is a parameter: \<open>freeRam\<close> is in
  \<open>util_functions.h\<close>. \<open>setupSerialHandler\<close> prepares the frame codec, which the
  model does not hold.
\<close>

definition setup_sketch :: "nat \<Rightarrow> string \<Rightarrow> system" where
  "setup_sketch threshold freeRam =
     (let d1 = setupBlink initialDevice;
          d2 = setupServos d1;
          d3 = setupMotors d2;
          ih = registerInitHandlers [];
          ch = registerCommandHandlers [];
          w = setupUpdateHandler threshold initializeCommands;
          d4 = d3\<lparr>serialBaud := Some 19200\<rparr>;
          d5 = sendSerialMessage (''free SRAM: '' @ freeRam) d4
      in \<lparr> dev = d5, initHandlers = ih, commandHandlers = ch, watchdog = w \<rparr>)"

text \<open>
  \<open>loop()\<close>, one iteration at the time \<open>now\<close> with the frames decoded in it.
  \<open>millis()\<close> is the time modulo \<open>2 ^ 32\<close>.
\<close>

definition loop :: "nat \<Rightarrow> frame list \<Rightarrow> system \<Rightarrow> system" where
  "loop now frames sys =
     (let s1 = processSerialData now frames sys;
          s2 = checkForUpdateExpiration now s1
      in s2\<lparr>dev := checkForBlink (of_nat now) (dev s2)\<rparr>)"

text \<open>The runtime calls \<open>loop()\<close> again and again: one pair of a time and frames each.\<close>

fun loops :: "(nat \<times> frame list) list \<Rightarrow> system \<Rightarrow> system" where
  "loops [] sys = sys"
| "loops ((now, frames) # its) sys = loops its (loop now frames sys)"

text \<open>
  The number of iterations of a run in which the watchdog runs the reinitialize
  action: those in which \<open>checkForUpdateExpiration\<close> finds the expiration due.
\<close>

fun expirations :: "(nat \<times> frame list) list \<Rightarrow> system \<Rightarrow> nat" where
  "expirations [] sys = 0"
| "expirations ((now, frames) # its) sys =
     (if expirationDue now (watchdog (processSerialData now frames sys)) then 1 else 0)
     + expirations its (loop now frames sys)"

text \<open>An iteration is silent when none of its frames names a registered command.\<close>

definition silent :: "registry \<Rightarrow> frame list \<Rightarrow> bool" where
  "silent reg frames = list_all (\<lambda>(name, v). map_of reg name = None) frames"

text \<open>The update messages one run of \<open>initializeCommands\<close> sends from the state \<open>d\<close>.\<close>

definition reinitMessages :: "device \<Rightarrow> message list" where
  "reinitMessages d =
     [UpdateMessage SERVO_01 (servo01Init d), UpdateMessage SERVO_02 (servo02Init d),
      UpdateMessage MOTOR_01 (motor01Init d), UpdateMessage MOTOR_02 (motor02Init d)]"

subsection \<open>What the state says about a command\<close>

text \<open>
  The init value of a command is the variable its init handler writes. The current
  value of BLINK is \<open>blinkInterval\<close>. The servo and motor commands have no variable
  for the current value: the value their update handler was last run with is what the
  handler reports to the host in its update message, and that is what the model takes.
  What reaches the actuator is read from the calls made on it.
\<close>

definition initValue :: "string \<Rightarrow> device \<Rightarrow> int option" where
  "initValue name d =
     (if name = BLINK then Some (blinkIntervalInit d)
      else if name = SERVO_01 then Some (servo01Init d)
      else if name = SERVO_02 then Some (servo02Init d)
      else if name = MOTOR_01 then Some (motor01Init d)
      else if name = MOTOR_02 then Some (motor02Init d)
      else None)"

definition lastUpdate :: "string \<Rightarrow> message list \<Rightarrow> int option" where
  "lastUpdate name msgs =
     foldl (\<lambda>acc m. case m of UpdateMessage n v \<Rightarrow> if n = name then Some v else acc
                             | _ \<Rightarrow> acc) None msgs"

definition currentValue :: "string \<Rightarrow> device \<Rightarrow> int option" where
  "currentValue name d =
     (if name = BLINK then Some (blinkInterval d)
      else if name \<in> {SERVO_01, SERVO_02, MOTOR_01, MOTOR_02}
      then lastUpdate name (serialOut d)
      else None)"

definition servoPosition :: "servo_call list \<Rightarrow> int option" where
  "servoPosition calls =
     foldl (\<lambda>acc c. case c of Write v \<Rightarrow> Some v | _ \<Rightarrow> acc) None calls"

text \<open>
  A DC motor of the shield keeps the PWM duty of the last \<open>setSpeed\<close> and the mode of
  the last \<open>run\<close>; a released motor is not driven, whatever its duty.
\<close>

fun motorStep :: "int \<times> motor_mode \<Rightarrow> motor_call \<Rightarrow> int \<times> motor_mode" where
  "motorStep (pwm, mode) (SetSpeed s) = (s, mode)"
| "motorStep (pwm, mode) (Run m) = (pwm, m)"

definition motorState :: "motor_call list \<Rightarrow> int \<times> motor_mode" where
  "motorState calls = foldl motorStep (0, RELEASE) calls"

definition appliedSpeed :: "motor_call list \<Rightarrow> int" where
  "appliedSpeed calls =
     (case motorState calls of (pwm, mode) \<Rightarrow> if mode = RELEASE then 0 else pwm)"

subsection \<open>The registry contract of the spec\<close>

text \<open>
  The spec's words for the reinitialize action, to compare \<open>initializeCommands\<close>
  with: every registered update handler is run with the init value of its command, in
  registration order.
\<close>

fun reinitializeAll_spec :: "registry \<Rightarrow> device \<Rightarrow> device" where
  "reinitializeAll_spec [] d = d"
| "reinitializeAll_spec ((name, h) # reg) d =
     reinitializeAll_spec reg (case initValue name d of None \<Rightarrow> d | Some v \<Rightarrow> h v d)"

section \<open>The host side\<close>

text \<open>
  Of the host only the interface \<open>ArduinoSerialConnection\<close> is among the sources;
  the class that implements \<open>updateCommand\<close>, the registration of commands and the
  transmission scheduler are not. The spec has a table from names to current values.
\<close>

datatype host_error = UnknownCommand | DuplicateCommand

type_synonym host_registry = "(string \<times> int) list"

text \<open>
  Modelled from the spec: \<open>ArduinoSerialConfig.registerCommand\<close> is not among the
  sources. \<open>register(name, initialValue)\<close> seeds the current value of the name and
  rejects a name that is already registered.
\<close>

definition registerCommand :: "string \<Rightarrow> int \<Rightarrow> host_registry \<Rightarrow> host_error + host_registry" where
  "registerCommand name initialValue h =
     (if name \<in> set (map fst h) then Inl DuplicateCommand
      else Inr (h @ [(name, initialValue)]))"

text \<open>
  Modelled from the spec: the implementation of \<open>updateCommand\<close> is not among the
  sources. \<open>updateCommand(name, value)\<close> overwrites the current value of the name and
  fails with an unknown-command condition when the name was never registered.
\<close>

definition updateCommand :: "string \<Rightarrow> int \<Rightarrow> host_registry \<Rightarrow> host_error + host_registry" where
  "updateCommand name v h =
     (if name \<in> set (map fst h)
      then Inr (map (\<lambda>(n, c). if n = name then (n, v) else (n, c)) h)
      else Inl UnknownCommand)"

text \<open>
  Modelled from the spec: the transmission scheduler is not among the sources. One
  cycle sends a frame with the current value of every registered command.
\<close>

definition transmissionCycle :: "host_registry \<Rightarrow> frame list" where
  "transmissionCycle h = map (\<lambda>(name, c). (name, c)) h"

section \<open>Helper facts\<close>

lemmas names_defs = BLINK_def SERVO_01_def SERVO_02_def MOTOR_01_def MOTOR_02_def

lemmas update_defs = setBlinkInterval_def setServo01_def setServo02_def setMotor01_def
  setMotor02_def sendUpdateMessage_def

lemmas init_defs = updateBlinkIntervalInit_def updateServo01Init_def updateServo02Init_def
  updateMotor01Init_def updateMotor02Init_def sendInitMessage_def

lemma registerCommandHandlers_empty:
  "registerCommandHandlers [] =
     [(BLINK, setBlinkInterval), (SERVO_01, setServo01), (SERVO_02, setServo02),
      (MOTOR_01, setMotor01), (MOTOR_02, setMotor02)]"
  by (simp add: registerCommandHandlers_def registerCommandHandler_def names_defs)

lemma registerInitHandlers_empty:
  "registerInitHandlers [] =
     [(BLINK, updateBlinkIntervalInit), (SERVO_01, updateServo01Init),
      (SERVO_02, updateServo02Init), (MOTOR_01, updateMotor01Init),
      (MOTOR_02, updateMotor02Init)]"
  by (simp add: registerInitHandlers_def registerInitHandler_def names_defs)

lemma initializeCommands_unfold:
  "initializeCommands d =
     setMotor02 (motor02Init d) (setMotor01 (motor01Init d)
       (setServo02 (servo02Init d) (setServo01 (servo01Init d)
         (d\<lparr>blinkInterval := blinkIntervalInit d\<rparr>))))"
  by (simp add: initializeCommands_def Let_def update_defs)

lemma currentValue_initializeCommands:
  assumes "name \<in> {BLINK, SERVO_01, SERVO_02, MOTOR_01, MOTOR_02}"
  shows "currentValue name (initializeCommands d) = initValue name d"
  using assms
  by (auto simp add: initializeCommands_unfold currentValue_def initValue_def lastUpdate_def
      update_defs names_defs)



text \<open>
  What reaches the actuators when the commands are reinitialised: each servo is written
  its init value clamped into \<open>[0, 180]\<close>, each motor is driven at the magnitude of its
  init value clamped to \<open>255\<close>.
\<close>

lemma actuators_after_initializeCommands:
  "servoPosition (servo01 (initializeCommands d)) = Some (constrain (servo01Init d) 0 180) \<and>
   servoPosition (servo02 (initializeCommands d)) = Some (constrain (servo02Init d) 0 180) \<and>
   appliedSpeed (motor01 (initializeCommands d)) = min \<bar>motor01Init d\<bar> 255 \<and>
   appliedSpeed (motor02 (initializeCommands d)) = min \<bar>motor02Init d\<bar> 255"
proof -
  have "appliedSpeed (setMotorSpeed m v) = min \<bar>v\<bar> 255" for m v
    by (cases "motorState m")
      (simp add: appliedSpeed_def motorState_def setMotorSpeed_def constrain_def
        abs_macro_def Let_def)
  then show ?thesis
    by (simp add: initializeCommands_unfold update_defs servoPosition_def)
qed

lemma processSerialData_silent:
  "silent (commandHandlers sys) frames \<Longrightarrow> processSerialData now frames sys = sys"
  by (induction frames) (auto simp add: silent_def dispatch_def)

lemma checkForBlink_frame:
  "serialOut (checkForBlink t d) = serialOut d \<and> reinitMessages (checkForBlink t d) = reinitMessages d"
  by (simp add: checkForBlink_def switchLedState_def digitalWrite_def Let_def reinitMessages_def)

lemma serialOut_initializeCommands:
  "serialOut (initializeCommands d) = serialOut d @ reinitMessages d"
  by (simp add: initializeCommands_unfold update_defs reinitMessages_def)

lemma loop_silent:
  assumes "silent (commandHandlers sys) frames"
  shows "commandHandlers (loop now frames sys) = commandHandlers sys"
    and "watchdog (loop now frames sys) =
           (if expirationDue now (watchdog sys) then (watchdog sys)\<lparr>expired := True\<rparr>
            else watchdog sys)"
    and "dev (loop now frames sys) =
           checkForBlink (of_nat now)
             (if expirationDue now (watchdog sys) then reinitialize (watchdog sys) (dev sys)
              else dev sys)"
  using assms
  by (simp_all add: loop_def Let_def processSerialData_silent checkForUpdateExpiration_def)

lemma silence_while_expired:
  assumes "expired (watchdog sys)"
    and "\<forall>it \<in> set its. silent (commandHandlers sys) (snd it)"
  shows "expirations its sys = 0 \<and> expired (watchdog (loops its sys)) \<and>
         serialOut (dev (loops its sys)) = serialOut (dev sys)"
  using assms
proof (induction its arbitrary: sys)
  case Nil
  then show ?case by simp
next
  case (Cons it its)
  obtain now frames where it: "it = (now, frames)" by (cases it)
  from Cons.prems it have q: "silent (commandHandlers sys) frames" by simp
  have nd: "\<not> expirationDue now (watchdog sys)"
    using Cons.prems(1) by (simp add: expirationDue_def)
  have w: "watchdog (loop now frames sys) = watchdog sys"
    and c: "commandHandlers (loop now frames sys) = commandHandlers sys"
    and d: "dev (loop now frames sys) = checkForBlink (of_nat now) (dev sys)"
    using loop_silent [OF q, of now] nd by simp_all
  have "expirations its (loop now frames sys) = 0 \<and>
        expired (watchdog (loops its (loop now frames sys))) \<and>
        serialOut (dev (loops its (loop now frames sys))) = serialOut (dev (loop now frames sys))"
    using Cons.prems by (intro Cons.IH) (simp_all add: w c)
  then show ?case
    using nd by (simp add: it processSerialData_silent [OF q] d checkForBlink_frame)
qed

lemma silence_from_armed:
  assumes "\<not> expired (watchdog sys)"
    and "\<forall>it \<in> set its. silent (commandHandlers sys) (snd it)"
    and "\<exists>it \<in> set its.
           fst it - lastUpdateTimestamp (watchdog sys) > timeoutThreshold (watchdog sys)"
    and "reinitialize (watchdog sys) = initializeCommands"
  shows "expirations its sys = 1 \<and> expired (watchdog (loops its sys)) \<and>
         serialOut (dev (loops its sys)) = serialOut (dev sys) @ reinitMessages (dev sys)"
  using assms
proof (induction its arbitrary: sys)
  case Nil
  then show ?case by simp
next
  case (Cons it its)
  obtain now frames where it: "it = (now, frames)" by (cases it)
  from Cons.prems it have q: "silent (commandHandlers sys) frames" by simp
  note ls = loop_silent [OF q, of now]
  show ?case
  proof (cases "expirationDue now (watchdog sys)")
    case True
    have e: "expired (watchdog (loop now frames sys))"
      using ls(2) True by simp
    have rest: "\<forall>it \<in> set its. silent (commandHandlers (loop now frames sys)) (snd it)"
      using Cons.prems(2) ls(1) by simp
    have out: "serialOut (dev (loop now frames sys)) =
        serialOut (dev sys) @ reinitMessages (dev sys)"
      using True Cons.prems(4)
      by (simp add: ls(3) checkForBlink_frame serialOut_initializeCommands)
    show ?thesis
      using silence_while_expired [OF e rest] True
      by (simp add: it processSerialData_silent [OF q] out)
  next
    case False
    have w: "watchdog (loop now frames sys) = watchdog sys"
      and d: "dev (loop now frames sys) = checkForBlink (of_nat now) (dev sys)"
      using ls False by simp_all
    have notnow: "\<not> (now - lastUpdateTimestamp (watchdog sys) > timeoutThreshold (watchdog sys))"
      using False Cons.prems(1) by (simp add: expirationDue_def)
    have "expirations its (loop now frames sys) = 1 \<and>
          expired (watchdog (loops its (loop now frames sys))) \<and>
          serialOut (dev (loops its (loop now frames sys))) =
            serialOut (dev (loop now frames sys)) @ reinitMessages (dev (loop now frames sys))"
      using Cons.prems notnow by (intro Cons.IH) (auto simp add: w ls(1) it)
    then show ?thesis
      using False by (simp add: it processSerialData_silent [OF q] d checkForBlink_frame)
  qed
qed

lemma silence_below_threshold:
  assumes "\<not> expired (watchdog sys)"
    and "\<forall>it \<in> set its. silent (commandHandlers sys) (snd it)"
    and "\<forall>it \<in> set its.
           fst it - lastUpdateTimestamp (watchdog sys) \<le> timeoutThreshold (watchdog sys)"
  shows "expirations its sys = 0 \<and> watchdog (loops its sys) = watchdog sys"
  using assms
proof (induction its arbitrary: sys)
  case Nil
  then show ?case by simp
next
  case (Cons it its)
  obtain now frames where it: "it = (now, frames)" by (cases it)
  from Cons.prems it have q: "silent (commandHandlers sys) frames" by simp
  have nd: "\<not> expirationDue now (watchdog sys)"
    using Cons.prems(3) it by (simp add: expirationDue_def)
  have w: "watchdog (loop now frames sys) = watchdog sys"
    and c: "commandHandlers (loop now frames sys) = commandHandlers sys"
    using loop_silent [OF q, of now] nd by simp_all
  have "expirations its (loop now frames sys) = 0 \<and>
        watchdog (loops its (loop now frames sys)) = watchdog (loop now frames sys)"
    using Cons.prems by (intro Cons.IH) (simp_all add: w c)
  then show ?case
    using nd by (simp add: it processSerialData_silent [OF q] w)
qed

lemma loops_commandHandlers:
  "commandHandlers (loops its sys) = commandHandlers sys"
proof (induction its arbitrary: sys)
  case Nil
  then show ?case by simp
next
  case (Cons it its)
  have p: "commandHandlers (processSerialData now frames s) = commandHandlers s" for now frames s
    by (induction frames arbitrary: s) (auto simp add: dispatch_def split: option.splits)
  have "commandHandlers (loop now frames s) = commandHandlers s" for now frames s
    by (simp add: loop_def Let_def checkForUpdateExpiration_def p)
  with Cons show ?case by (cases it) simp
qed

lemma lastUpdate_InitMessage:
  "lastUpdate c (msgs @ [InitMessage name v]) = lastUpdate c msgs"
  by (simp add: lastUpdate_def)

section \<open>Properties of the update handlers\<close>

text \<open>
  C4: for every input \<open>v \<le> 0\<close>, \<open>setBlinkInterval v\<close> resets the blink interval to
  its init value instead of clamping \<open>v\<close>; for every \<open>v > 0\<close> it sets the blink
  interval to \<open>v\<close> clamped into \<open>[10, 10000]\<close>.
\<close>

theorem setBlinkInterval_reset_or_clamp:
  "(v \<le> 0 \<longrightarrow> blinkInterval (setBlinkInterval v d) = blinkIntervalInit d) \<and>
   (v > 0 \<longrightarrow>
      blinkInterval (setBlinkInterval v d) = max 10 (min 10000 v) \<and>
      10 \<le> blinkInterval (setBlinkInterval v d) \<and>
      blinkInterval (setBlinkInterval v d) \<le> 10000)"
  by (simp add: setBlinkInterval_def sendUpdateMessage_def constrain_def Let_def)

theorem setBlinkInterval_reset_or_clamp_witness:
  "blinkInterval (setBlinkInterval (- 7) initialDevice) = 250 \<and>
   blinkInterval (setBlinkInterval 0 (initialDevice\<lparr>blinkIntervalInit := 3\<rparr>)) = 3 \<and>
   blinkInterval (setBlinkInterval 4 initialDevice) = 10 \<and>
   blinkInterval (setBlinkInterval 500 initialDevice) = 500 \<and>
   blinkInterval (setBlinkInterval 20000 initialDevice) = 10000"
  using setBlinkInterval_reset_or_clamp [of "- 7" initialDevice]
    setBlinkInterval_reset_or_clamp [of 0 "initialDevice\<lparr>blinkIntervalInit := 3\<rparr>"]
    setBlinkInterval_reset_or_clamp [of 4 initialDevice]
    setBlinkInterval_reset_or_clamp [of 500 initialDevice]
    setBlinkInterval_reset_or_clamp [of 20000 initialDevice]
  by (simp add: initialDevice_def)

text \<open>
  C5: the motor handlers clamp magnitudes that are out of range. For every input \<open>v\<close>
  the motor is driven, after \<open>setMotorSpeed\<close>, at the magnitude \<open>min \<bar>v\<bar> 255\<close> (a
  released motor is driven at 0); the input 300 gives the speed 255, forward; and the
  servo handlers write the position 0 for the input \<open>-10\<close>.
\<close>

theorem motor_and_servo_clamp:
  "appliedSpeed (setMotorSpeed m v) = min \<bar>v\<bar> 255 \<and>
   setMotorSpeed m 300 = m @ [SetSpeed 255, Run FORWARD] \<and>
   motor01 (setMotor01 300 d) = motor01 d @ [SetSpeed 255, Run FORWARD] \<and>
   motor02 (setMotor02 300 d) = motor02 d @ [SetSpeed 255, Run FORWARD] \<and>
   servo01 (setServo01 (- 10) d) = servo01 d @ [Write 0] \<and>
   servo02 (setServo02 (- 10) d) = servo02 d @ [Write 0]"
proof -
  have "appliedSpeed (setMotorSpeed m v) = min \<bar>v\<bar> 255"
    by (cases "motorState m")
      (simp add: appliedSpeed_def motorState_def setMotorSpeed_def constrain_def
        abs_macro_def Let_def)
  moreover have "setMotorSpeed k 300 = k @ [SetSpeed 255, Run FORWARD]" for k
    by (simp add: setMotorSpeed_def constrain_def)
  ultimately show ?thesis
    by (simp add: update_defs constrain_def)
qed

text \<open>
  C9: \<open>setMotorSpeed\<close> maps the sign of the clamped value to the mode of the motor.
  When the clamped value is 0 the motor is released and no speed is set; when it is
  positive the speed is set to it and the motor runs forward; when it is negative the
  speed is set to its absolute value and the motor runs backward. Every speed the call
  passes to the motor lies in \<open>[0, 255]\<close>.
\<close>

theorem setMotorSpeed_sign_to_mode:
  "constrain v (- 255) 255 = max (- 255) (min 255 v) \<and>
   (constrain v (- 255) 255 = 0 \<longrightarrow> setMotorSpeed m v = m @ [Run RELEASE]) \<and>
   (constrain v (- 255) 255 > 0 \<longrightarrow>
      setMotorSpeed m v = m @ [SetSpeed (constrain v (- 255) 255), Run FORWARD]) \<and>
   (constrain v (- 255) 255 < 0 \<longrightarrow>
      setMotorSpeed m v = m @ [SetSpeed \<bar>constrain v (- 255) 255\<bar>, Run BACKWARD]) \<and>
   (\<forall>s. SetSpeed s \<in> set (drop (length m) (setMotorSpeed m v)) \<longrightarrow> 0 \<le> s \<and> s \<le> 255)"
  by (simp add: setMotorSpeed_def constrain_def abs_macro_def Let_def)

theorem setMotorSpeed_sign_to_mode_witness:
  "setMotorSpeed [] 0 = [Run RELEASE] \<and>
   setMotorSpeed [] 300 = [SetSpeed 255, Run FORWARD] \<and>
   setMotorSpeed [Run RELEASE] (- 40) = [Run RELEASE, SetSpeed 40, Run BACKWARD] \<and>
   setMotorSpeed [] (- 300) = [SetSpeed 255, Run BACKWARD]"
  using setMotorSpeed_sign_to_mode [of 0 "[]"] setMotorSpeed_sign_to_mode [of 300 "[]"]
    setMotorSpeed_sign_to_mode [of "- 40" "[Run RELEASE]"]
    setMotorSpeed_sign_to_mode [of "- 300" "[]"]
  by (simp add: constrain_def)

text \<open>
  C8: for every input \<open>v\<close> outside \<open>[0, 180]\<close>, a servo handler writes the clamped
  position \<open>constrain v 0 180\<close> to the servo and sends the update message with \<open>v\<close>
  itself, so the value reported to the host is not the position that was written.
\<close>

theorem servo_ack_carries_unclamped_value:
  assumes "v < 0 \<or> v > 180"
  shows "servo01 (setServo01 v d) = servo01 d @ [Write (constrain v 0 180)] \<and>
         serialOut (setServo01 v d) = serialOut d @ [UpdateMessage SERVO_01 v] \<and>
         servo02 (setServo02 v d) = servo02 d @ [Write (constrain v 0 180)] \<and>
         serialOut (setServo02 v d) = serialOut d @ [UpdateMessage SERVO_02 v] \<and>
         constrain v 0 180 = (if v < 0 then 0 else 180) \<and>
         constrain v 0 180 \<noteq> v"
  using assms by (auto simp add: update_defs constrain_def)

theorem servo_ack_carries_unclamped_value_witness:
  "servo01 (setServo01 200 initialDevice) = [Write 180] \<and>
   serialOut (setServo01 200 initialDevice) = [UpdateMessage SERVO_01 200] \<and>
   servo02 (setServo02 (- 10) initialDevice) = [Write 0] \<and>
   serialOut (setServo02 (- 10) initialDevice) = [UpdateMessage SERVO_02 (- 10)]"
  using servo_ack_carries_unclamped_value [of 200 initialDevice]
    servo_ack_carries_unclamped_value [of "- 10" initialDevice]
  by (simp add: initialDevice_def constrain_def)

text \<open>
  C6, as the claim states it, fails: the blink handler takes the input 0, sets the
  blink interval back from 500 to the init value 250 and sends no update message.
\<close>

theorem blink_reset_sends_nothing:
  "blinkInterval (setBlinkInterval 500 initialDevice) = 500 \<and>
   blinkInterval (setBlinkInterval 0 (setBlinkInterval 500 initialDevice)) = 250 \<and>
   serialOut (setBlinkInterval 0 (setBlinkInterval 500 initialDevice)) =
     serialOut (setBlinkInterval 500 initialDevice)"
  by (simp add: update_defs constrain_def initialDevice_def)

text \<open>
  C6, amended: the update handler of every registered command sends exactly one update
  message for its command, for every input, except that the blink handler sends none
  for an input \<open>v \<le> 0\<close>. The servo and motor handlers report the input itself, the
  blink handler reports the clamped interval.
\<close>

theorem update_message_of_handler:
  assumes "map_of (registerCommandHandlers []) name = Some h"
  shows "(name \<noteq> BLINK \<longrightarrow> serialOut (h v d) = serialOut d @ [UpdateMessage name v]) \<and>
         (name = BLINK \<and> v > 0 \<longrightarrow>
            serialOut (h v d) = serialOut d @ [UpdateMessage name (constrain v 10 10000)]) \<and>
         (name = BLINK \<and> v \<le> 0 \<longrightarrow> serialOut (h v d) = serialOut d)"
  using assms
  by (auto simp add: registerCommandHandlers_empty update_defs names_defs Let_def
      split: if_splits)

theorem update_message_of_handler_witness:
  "serialOut (setMotor01 300 initialDevice) = [UpdateMessage MOTOR_01 300] \<and>
   serialOut (setBlinkInterval 5 initialDevice) = [UpdateMessage BLINK 10] \<and>
   serialOut (setBlinkInterval 0 initialDevice) = []"
proof -
  have m: "map_of (registerCommandHandlers []) MOTOR_01 = Some setMotor01"
    by (simp add: registerCommandHandlers_empty names_defs)
  have b: "map_of (registerCommandHandlers []) BLINK = Some setBlinkInterval"
    by (simp add: registerCommandHandlers_empty names_defs)
  show ?thesis
    using update_message_of_handler [OF m, of 300 initialDevice]
      update_message_of_handler [OF b, of 5 initialDevice]
      update_message_of_handler [OF b, of 0 initialDevice]
    by (simp add: names_defs constrain_def initialDevice_def)
qed

section \<open>Properties of the init handlers\<close>

text \<open>
  C10: every registered init handler stores the new init value of its command and sends
  one init message for it; the init values of the other commands, the current value of
  every command, the blink interval and the calls made on the servos, the motors and the
  LED pin are as before. The new init value becomes the current value of the command
  when the commands are reinitialised.
\<close>

theorem init_handler_frame:
  assumes "map_of (registerInitHandlers []) name = Some h"
  shows "initValue name (h v d) = Some v \<and>
         (\<forall>other. other \<noteq> name \<longrightarrow> initValue other (h v d) = initValue other d) \<and>
         serialOut (h v d) = serialOut d @ [InitMessage name v] \<and>
         (\<forall>c. currentValue c (h v d) = currentValue c d) \<and>
         blinkInterval (h v d) = blinkInterval d \<and>
         servo01 (h v d) = servo01 d \<and> servo02 (h v d) = servo02 d \<and>
         motor01 (h v d) = motor01 d \<and> motor02 (h v d) = motor02 d \<and>
         gpio (h v d) = gpio d \<and> ledState (h v d) = ledState d \<and>
         previousLedStateChange (h v d) = previousLedStateChange d \<and>
         afmsBegun (h v d) = afmsBegun d \<and> serialBaud (h v d) = serialBaud d \<and>
         currentValue name (initializeCommands (h v d)) = Some v"
proof -
  from assms have five: "name \<in> {BLINK, SERVO_01, SERVO_02, MOTOR_01, MOTOR_02}"
    by (auto simp add: registerInitHandlers_empty split: if_splits)
  have frame: "initValue name (h v d) = Some v \<and>
         (\<forall>other. other \<noteq> name \<longrightarrow> initValue other (h v d) = initValue other d) \<and>
         serialOut (h v d) = serialOut d @ [InitMessage name v] \<and>
         blinkInterval (h v d) = blinkInterval d \<and>
         servo01 (h v d) = servo01 d \<and> servo02 (h v d) = servo02 d \<and>
         motor01 (h v d) = motor01 d \<and> motor02 (h v d) = motor02 d \<and>
         gpio (h v d) = gpio d \<and> ledState (h v d) = ledState d \<and>
         previousLedStateChange (h v d) = previousLedStateChange d \<and>
         afmsBegun (h v d) = afmsBegun d \<and> serialBaud (h v d) = serialBaud d"
    using assms
    by (auto simp add: registerInitHandlers_empty init_defs initValue_def names_defs
        split: if_splits)
  then have cur: "currentValue c (h v d) = currentValue c d" for c
    by (simp add: currentValue_def lastUpdate_InitMessage)
  have "currentValue name (initializeCommands (h v d)) = Some v"
    using currentValue_initializeCommands [OF five, of "h v d"] frame by simp
  with frame cur show ?thesis by simp
qed

theorem init_handler_frame_witness:
  "initValue SERVO_01 (updateServo01Init 45 initialDevice) = Some 45 \<and>
   serialOut (updateServo01Init 45 initialDevice) = [InitMessage SERVO_01 45] \<and>
   servo01 (updateServo01Init 45 initialDevice) = [] \<and>
   blinkInterval (updateBlinkIntervalInit 700 initialDevice) = 250 \<and>
   initValue BLINK (updateBlinkIntervalInit 700 initialDevice) = Some 700"
proof -
  have s: "map_of (registerInitHandlers []) SERVO_01 = Some updateServo01Init"
    by (simp add: registerInitHandlers_empty names_defs)
  have b: "map_of (registerInitHandlers []) BLINK = Some updateBlinkIntervalInit"
    by (simp add: registerInitHandlers_empty names_defs)
  show ?thesis
    using init_handler_frame [OF s, of 45 initialDevice]
      init_handler_frame [OF b, of 700 initialDevice]
    by (simp add: initialDevice_def)
qed

section \<open>Properties of the reinitialize action\<close>

text \<open>
  C1, as the claim states it, fails: from the state of the global initialisers,
  \<open>initializeCommands\<close> does not do what running every registered update handler
  with its init value does. It never runs the blink handler, which would send an update
  message for BLINK.
\<close>

theorem initializeCommands_skips_blink_handler:
  "initializeCommands initialDevice \<noteq>
     reinitializeAll_spec (registerCommandHandlers []) initialDevice \<and>
   serialOut (initializeCommands initialDevice) =
     [UpdateMessage SERVO_01 90, UpdateMessage SERVO_02 90,
      UpdateMessage MOTOR_01 0, UpdateMessage MOTOR_02 0] \<and>
   serialOut (reinitializeAll_spec (registerCommandHandlers []) initialDevice) =
     [UpdateMessage BLINK 250, UpdateMessage SERVO_01 90, UpdateMessage SERVO_02 90,
      UpdateMessage MOTOR_01 0, UpdateMessage MOTOR_02 0]"
proof -
  have code: "serialOut (initializeCommands initialDevice) =
      [UpdateMessage SERVO_01 90, UpdateMessage SERVO_02 90,
       UpdateMessage MOTOR_01 0, UpdateMessage MOTOR_02 0]"
    by (simp add: initializeCommands_unfold update_defs initialDevice_def)
  have spec: "serialOut (reinitializeAll_spec (registerCommandHandlers []) initialDevice) =
      [UpdateMessage BLINK 250, UpdateMessage SERVO_01 90, UpdateMessage SERVO_02 90,
       UpdateMessage MOTOR_01 0, UpdateMessage MOTOR_02 0]"
    by (simp add: registerCommandHandlers_empty initValue_def update_defs names_defs
        constrain_def initialDevice_def)
  have "initializeCommands initialDevice \<noteq>
      reinitializeAll_spec (registerCommandHandlers []) initialDevice"
    using code spec by auto
  with code spec show ?thesis by simp
qed

text \<open>
  C1, amended: the commands are registered in the order BLINK, SRV1, SRV2, MTR1, MTR2.
  \<open>initializeCommands\<close> assigns the blink init value to the blink interval itself,
  without the blink handler, and then runs the update handlers of the other registered
  commands, each once with the init value of its command, in registration order; the
  host is sent the four update messages in that order.
\<close>

theorem initializeCommands_order:
  "map fst (registerCommandHandlers []) = [BLINK, SERVO_01, SERVO_02, MOTOR_01, MOTOR_02] \<and>
   initializeCommands d =
     reinitializeAll_spec (filter (\<lambda>(name, h). name \<noteq> BLINK) (registerCommandHandlers []))
       (d\<lparr>blinkInterval := blinkIntervalInit d\<rparr>) \<and>
   serialOut (initializeCommands d) =
     serialOut d @ [UpdateMessage SERVO_01 (servo01Init d), UpdateMessage SERVO_02 (servo02Init d),
                    UpdateMessage MOTOR_01 (motor01Init d), UpdateMessage MOTOR_02 (motor02Init d)] \<and>
   blinkInterval (initializeCommands d) = blinkIntervalInit d"
  by (simp add: registerCommandHandlers_empty initializeCommands_unfold initValue_def
      update_defs names_defs)



section \<open>Properties of the watchdog\<close>

text \<open>
  C2: take a run of loop iterations in none of which a frame for a registered command
  is dispatched, starting with the watchdog armed, in which the time since the last
  update exceeds the threshold at some iteration. Then the reinitialize action runs in
  exactly one iteration of the run, the host is sent the update messages of one
  reinitialisation and no more, and the watchdog is expired at the end. While the
  silence goes on the action does not run again and the watchdog stays expired. The
  dispatch of a frame for a registered command rearms it and sets the time of the last
  update.
\<close>

theorem watchdog_fires_once_per_silence:
  assumes quiet: "\<forall>it \<in> set its. silent (commandHandlers sys) (snd it)"
    and armed: "\<not> expired (watchdog sys)"
    and exceeds: "\<exists>it \<in> set its.
           fst it - lastUpdateTimestamp (watchdog sys) > timeoutThreshold (watchdog sys)"
    and action: "reinitialize (watchdog sys) = initializeCommands"
    and still: "\<forall>it \<in> set later. silent (commandHandlers sys) (snd it)"
    and valid: "map_of (commandHandlers sys) name \<noteq> None"
  shows "expirations its sys = 1 \<and>
         serialOut (dev (loops its sys)) = serialOut (dev sys) @ reinitMessages (dev sys) \<and>
         expired (watchdog (loops its sys)) \<and>
         expirations later (loops its sys) = 0 \<and>
         serialOut (dev (loops later (loops its sys))) = serialOut (dev (loops its sys)) \<and>
         expired (watchdog (loops later (loops its sys))) \<and>
         \<not> expired (watchdog (dispatch now name v (loops later (loops its sys)))) \<and>
         lastUpdateTimestamp (watchdog (dispatch now name v (loops later (loops its sys)))) = now"
proof -
  note first = silence_from_armed [OF armed quiet exceeds action]
  from first have e: "expired (watchdog (loops its sys))" by simp
  have still': "\<forall>it \<in> set later. silent (commandHandlers (loops its sys)) (snd it)"
    using still by (simp add: loops_commandHandlers)
  note second = silence_while_expired [OF e still']
  have "map_of (commandHandlers (loops later (loops its sys))) name \<noteq> None"
    using valid by (simp add: loops_commandHandlers)
  then have "\<not> expired (watchdog (dispatch now name v (loops later (loops its sys)))) \<and>
      lastUpdateTimestamp (watchdog (dispatch now name v (loops later (loops its sys)))) = now"
    by (auto simp add: dispatch_def)
  with first second show ?thesis by simp
qed


theorem watchdog_fires_once_per_silence_witness:
  "expirations [(500, []), (1200, [(''ZZZ'', 1)]), (1500, [])] (setup_sketch 1000 ''1500'') = 1 \<and>
   expired (watchdog (loops [(500, []), (1200, [(''ZZZ'', 1)]), (1500, [])]
     (setup_sketch 1000 ''1500''))) \<and>
   expirations [(1600, []), (9000, [])]
     (loops [(500, []), (1200, [(''ZZZ'', 1)]), (1500, [])] (setup_sketch 1000 ''1500'')) = 0 \<and>
   \<not> expired (watchdog (dispatch 9100 MOTOR_01 10 (loops [(1600, []), (9000, [])]
     (loops [(500, []), (1200, [(''ZZZ'', 1)]), (1500, [])] (setup_sketch 1000 ''1500'')))))"
proof -
  let ?sys = "setup_sketch 1000 ''1500''"
  let ?its = "[(500, []), (1200, [(''ZZZ'', 1)]), (1500, [])] :: (nat \<times> frame list) list"
  let ?later = "[(1600, []), (9000, [])] :: (nat \<times> frame list) list"
  have c: "commandHandlers ?sys = registerCommandHandlers []"
    by (simp add: setup_sketch_def Let_def)
  have w: "watchdog ?sys = setupUpdateHandler 1000 initializeCommands"
    by (simp add: setup_sketch_def Let_def)
  have 1: "\<forall>it \<in> set ?its. silent (commandHandlers ?sys) (snd it)"
    by (simp add: c registerCommandHandlers_empty silent_def names_defs)
  have 2: "\<not> expired (watchdog ?sys)"
    by (simp add: w setupUpdateHandler_def)
  have 3: "\<exists>it \<in> set ?its.
      fst it - lastUpdateTimestamp (watchdog ?sys) > timeoutThreshold (watchdog ?sys)"
    by (simp add: w setupUpdateHandler_def)
  have 4: "reinitialize (watchdog ?sys) = initializeCommands"
    by (simp add: w setupUpdateHandler_def)
  have 5: "\<forall>it \<in> set ?later. silent (commandHandlers ?sys) (snd it)"
    by (simp add: silent_def)
  have 6: "map_of (commandHandlers ?sys) MOTOR_01 \<noteq> None"
    by (simp add: c registerCommandHandlers_empty names_defs)
  show ?thesis
    using watchdog_fires_once_per_silence [OF 1 2 3 4 5 6, of 9100 10] by simp
qed

section \<open>Properties of the host registry\<close>

text \<open>
  C7: on the host, \<open>updateCommand name v\<close> with a name that was never registered
  fails with the unknown-command error; with a registered name (a name is in the table
  once \<open>registerCommand\<close> has accepted it) it succeeds, keeps the registered names,
  stores \<open>v\<close> as the current value of the name and leaves the others, so the next
  transmission cycle sends \<open>v\<close>, and only \<open>v\<close>, for that name.
\<close>

theorem updateCommand_unknown_or_overwrite:
  "(registerCommand name c h0 = Inr h \<longrightarrow> name \<in> set (map fst h)) \<and>
   (name \<notin> set (map fst h) \<longrightarrow> updateCommand name v h = Inl UnknownCommand) \<and>
   (name \<in> set (map fst h) \<longrightarrow>
      (\<exists>h'. updateCommand name v h = Inr h' \<and>
            map fst h' = map fst h \<and>
            map_of h' name = Some v \<and>
            (\<forall>other. other \<noteq> name \<longrightarrow> map_of h' other = map_of h other) \<and>
            (name, v) \<in> set (transmissionCycle h') \<and>
            (\<forall>c. (name, c) \<in> set (transmissionCycle h') \<longrightarrow> c = v)))"
proof -
  let ?f = "\<lambda>(n, c). if n = name then (n, v) else (n, c)"
  have keys: "map fst (map ?f h) = map fst h"
    by (induction h) auto
  have look: "map_of (map ?f h) k =
      (if k = name then map_option (\<lambda>c. v) (map_of h k) else map_of h k)" for k
    by (induction h) auto
  have some: "name \<in> set (map fst h) \<Longrightarrow> \<exists>c. map_of h name = Some c"
    using map_of_eq_None_iff [of h name] by auto
  have mem: "(name, c) \<in> set (map ?f h) \<Longrightarrow> c = v" for c
    by (induction h) (auto split: if_splits)
  have there: "name \<in> set (map fst h) \<Longrightarrow> (name, v) \<in> set (map ?f h)"
    by (induction h) auto
  have cyc: "transmissionCycle k = k" for k
    by (induction k) (auto simp add: transmissionCycle_def)
  have reg: "registerCommand name c h0 = Inr h \<Longrightarrow> name \<in> set (map fst h)"
    by (auto simp add: registerCommand_def split: if_splits)
  show ?thesis
    using keys look mem there some reg by (auto simp add: updateCommand_def cyc)
qed

theorem updateCommand_unknown_or_overwrite_witness:
  "registerCommand ''X1'' 0 [(''X2'', 7)] = Inr [(''X2'', 7), (''X1'', 0)] \<and>
   updateCommand ''X9'' 50 [(''X2'', 7), (''X1'', 0)] = Inl UnknownCommand \<and>
   updateCommand ''X1'' 50 [(''X2'', 7), (''X1'', 0)] = Inr [(''X2'', 7), (''X1'', 50)] \<and>
   transmissionCycle [(''X2'', 7), (''X1'', 50)] = [(''X2'', 7), (''X1'', 50)]"
  using updateCommand_unknown_or_overwrite
      [of "''X9''" 0 "[(''X2'', 7)]" "[(''X2'', 7), (''X1'', 0)]" 50]
    updateCommand_unknown_or_overwrite
      [of "''X1''" 0 "[(''X2'', 7)]" "[(''X2'', 7), (''X1'', 0)]" 50]
  by (simp add: registerCommand_def updateCommand_def transmissionCycle_def)

end
